theory Spec2Isabelle
  imports Complex_Main
begin

section \<open>Data model of \<open>pybat.core\<close>\<close>

text \<open>
  The exceptions the methods of \<open>Cathode\<close> can raise. \<open>IOError\<close>, \<open>Warning\<close> and
  \<open>ValueError\<close> are raised by \<open>core.py\<close> itself; \<open>IndexError\<close>, \<open>AttributeError\<close> and
  \<open>LinAlgError\<close> come from Python and numpy operations the methods call.
\<close>

datatype py_error = IndexError | ValueError | IOError | Warning | AttributeError | LinAlgError

text \<open>
  A numpy float: a finite value, computed here in exact real arithmetic (rounding is
  not modelled), or \<open>NaN\<close>. Arithmetic with a \<open>NaN\<close> operand gives \<open>NaN\<close>.
\<close>

datatype npfloat = Fin real | NaN

type_synonym rvec = "real \<times> real \<times> real"
type_synonym ivec = "int \<times> int \<times> int"
type_synonym fvec = "npfloat \<times> npfloat \<times> npfloat"

text \<open>The lattice matrix: its three rows are the lattice vectors.\<close>

type_synonym matrix = "rvec \<times> rvec \<times> rvec"

text \<open>
  A periodic site: the species (by its \<open>species_string\<close>, for an ordered site the element
  symbol), the fractional coordinates and the site properties. The cartesian coordinates
  are derived from the fractional ones through the lattice.
\<close>

record site =
  specie :: string
  frac_coords :: fvec
  properties :: "string \<rightharpoonup> real"

text \<open>
  The \<open>Cathode\<close>: the lattice and the sites of the \<open>Structure\<close> it extends, and the
  private attribute \<open>_cation_configuration\<close>, which is \<open>None\<close> until first set.
\<close>

record cathode =
  lattice :: matrix
  sites :: "site list"
  cation_configuration_attr :: "site list option"

text \<open>
  One entry of the list that \<open>DetailedVoronoiContainer.neighbors\<close> returns: the index of
  the neighbouring site and the periodic image in which it is reached. The container,
  queried with the two fixed factors \<open>VORONOI_DIST_FACTOR\<close> and \<open>VORONOI_ANG_FACTOR\<close>, is
  the list of these neighbour lists, one per site index.
\<close>

record neighbor =
  nb_index :: nat
  nb_image :: ivec

type_synonym voronoi = "neighbor list list"

definition CATIONS :: "string list" where
  "CATIONS = [''Li'', ''Na'', ''Mg'']"

section \<open>Python operations used by the methods\<close>

text \<open>\<open>xs[i]\<close> for a non-negative index: \<open>IndexError\<close> out of range.\<close>

definition py_getitem :: "'a list \<Rightarrow> nat \<Rightarrow> py_error + 'a" where
  "py_getitem xs i = (if i < length xs then Inr (xs ! i) else Inl IndexError)"

text \<open>
  \<open>xs.remove(y)\<close>: deletes the first element that compares equal to \<open>y\<close>, and raises
  \<open>ValueError\<close> when there is none. The comparison is a parameter, since the source
  calls \<open>remove\<close> with arguments of two different types.
\<close>

fun list_remove_by :: "('a \<Rightarrow> 'b \<Rightarrow> bool) \<Rightarrow> 'a list \<Rightarrow> 'b \<Rightarrow> py_error + 'a list" where
  "list_remove_by eq [] y = Inl ValueError"
| "list_remove_by eq (x # xs) y =
     (if eq x y then Inr xs
      else (case list_remove_by eq xs y of
              Inl e \<Rightarrow> Inl e
            | Inr xs' \<Rightarrow> Inr (x # xs')))"

text \<open>
  A \<open>Site\<close> compared with a list of integers: never equal. (Versions of the structure
  library whose \<open>Site.__eq__\<close> reads the attributes of its argument raise
  \<open>AttributeError\<close> in the comparison instead; \<open>remove\<close> raises in both cases.)
\<close>

definition site_eq_index_list :: "site \<Rightarrow> nat list \<Rightarrow> bool" where
  "site_eq_index_list s idxs = False"

text \<open>\<open>itertools.combinations(xs, 2)\<close>: the pairs of positions \<open>i < j\<close>, in order.\<close>

fun combinations2 :: "'a list \<Rightarrow> ('a \<times> 'a) list" where
  "combinations2 [] = []"
| "combinations2 (x # xs) = map (Pair x) xs @ combinations2 xs"

text \<open>\<open>list(set(A).intersection(B))\<close>: the distinct members of \<open>A\<close> that occur in \<open>B\<close>.\<close>

definition shared_neighbours :: "nat list \<Rightarrow> nat list \<Rightarrow> nat list" where
  "shared_neighbours A B = remdups (filter (\<lambda>x. x \<in> set B) A)"

section \<open>The cation configuration\<close>

definition cation_sites :: "cathode \<Rightarrow> site list" where
  "cation_sites c = filter (\<lambda>s. specie s \<in> set CATIONS) (sites c)"

text \<open>
  The property \<open>cation_configuration\<close>: initialises the attribute with all cation sites
  on first access. It returns the configuration and the (possibly updated) object.
\<close>

definition cation_configuration :: "cathode \<Rightarrow> site list \<times> cathode" where
  "cation_configuration c =
     (case cation_configuration_attr c of
        None \<Rightarrow> (cation_sites c, c\<lparr>cation_configuration_attr := Some (cation_sites c)\<rparr>)
      | Some cfg \<Rightarrow> (cfg, c))"

text \<open>
  The loop of \<open>remove_cations\<close> over the requested sites, on the value of the attribute
  \<open>_cation_configuration\<close>. The result is the exception raised, if any, and the attribute
  as the loop left it (the list is mutated in place, so earlier removals persist).
  The attribute is read directly: when it is still \<open>None\<close>, calling \<open>remove\<close> on it raises
  \<open>AttributeError\<close>.
\<close>

fun remove_loop :: "site list option \<Rightarrow> site list \<Rightarrow> py_error option \<times> site list option" where
  "remove_loop cfg [] = (None, cfg)"
| "remove_loop cfg (s # rest) =
     (if specie s \<notin> set CATIONS then (Some IOError, cfg)
      else (case cfg of
              None \<Rightarrow> (Some AttributeError, cfg)
            | Some xs \<Rightarrow>
                (case list_remove_by (=) xs s of
                   Inl e \<Rightarrow> (Some Warning, cfg)
                 | Inr xs' \<Rightarrow> remove_loop (Some xs') rest)))"

text \<open>
  \<open>remove_cations(sites=None)\<close>: the exception raised, if any, and the object after
  the call.
\<close>

definition remove_cations :: "cathode \<Rightarrow> site list option \<Rightarrow> py_error option \<times> cathode" where
  "remove_cations c req =
     (case req of
        None \<Rightarrow> (None, c\<lparr>cation_configuration_attr := Some []\<rparr>)
      | Some ss \<Rightarrow>
          (case remove_loop (cation_configuration_attr c) ss of
             (e, cfg') \<Rightarrow> (e, c\<lparr>cation_configuration_attr := cfg'\<rparr>)))"

section \<open>Oxygen dimers\<close>

text \<open>
  \<open>self.voronoi.neighbors(i, VORONOI_DIST_FACTOR, VORONOI_ANG_FACTOR)\<close>, projected on
  the \<open>"index"\<close> entries, as every use in the source does.
\<close>

definition neighbors_indices :: "voronoi \<Rightarrow> nat \<Rightarrow> py_error + nat list" where
  "neighbors_indices vor i =
     (case py_getitem vor i of
        Inl e \<Rightarrow> Inl e
      | Inr nbs \<Rightarrow> Inr (map nb_index nbs))"

text \<open>
  The list comprehension that keeps the oxygen neighbours: \<open>self.sites[index]\<close> is read
  for every neighbour, in order.
\<close>

fun oxygen_filter :: "site list \<Rightarrow> nat list \<Rightarrow> py_error + nat list" where
  "oxygen_filter ss [] = Inr []"
| "oxygen_filter ss (i # rest) =
     (case py_getitem ss i of
        Inl e \<Rightarrow> Inl e
      | Inr s \<Rightarrow>
          (case oxygen_filter ss rest of
             Inl e \<Rightarrow> Inl e
           | Inr keep \<Rightarrow> Inr (if specie s = ''O'' then i # keep else keep)))"

text \<open>The loop over the oxygen pairs, appending the accepted ones.\<close>

fun dimer_loop :: "voronoi \<Rightarrow> (nat \<times> nat) list \<Rightarrow> py_error + (nat \<times> nat) list" where
  "dimer_loop vor [] = Inr []"
| "dimer_loop vor (oxygen_pair # rest) =
     (case neighbors_indices vor (fst oxygen_pair) of
        Inl e \<Rightarrow> Inl e
      | Inr oxygen_A_neighbors \<Rightarrow>
          (case neighbors_indices vor (snd oxygen_pair) of
             Inl e \<Rightarrow> Inl e
           | Inr oxygen_B_neighbors \<Rightarrow>
               (case dimer_loop vor rest of
                  Inl e \<Rightarrow> Inl e
                | Inr oxygen_dimers \<Rightarrow>
                    Inr (if length (shared_neighbours oxygen_A_neighbors oxygen_B_neighbors) = 2
                         then oxygen_pair # oxygen_dimers else oxygen_dimers))))"

text \<open>
  \<open>find_oxygen_dimers(site_index)\<close>, on the sites of the cathode and the value \<open>vor\<close> of
  its \<open>voronoi\<close> property.
\<close>

definition find_oxygen_dimers :: "site list \<Rightarrow> voronoi \<Rightarrow> nat \<Rightarrow> py_error + (nat \<times> nat) list" where
  "find_oxygen_dimers ss vor site_index =
     (case neighbors_indices vor site_index of
        Inl e \<Rightarrow> Inl e
      | Inr nbs \<Rightarrow>
          (case oxygen_filter ss nbs of
             Inl e \<Rightarrow> Inl e
           | Inr oxygen_neighbors_indices \<Rightarrow>
               if length oxygen_neighbors_indices \<le> 1 then Inl ValueError
               else dimer_loop vor (combinations2 oxygen_neighbors_indices)))"

text \<open>\<open>get_dimer_environment(dimer_indices)\<close> for a pair of indices.\<close>

definition get_dimer_environment :: "voronoi \<Rightarrow> nat \<times> nat \<Rightarrow> py_error + nat set" where
  "get_dimer_environment vor dimer_indices =
     (case neighbors_indices vor (fst dimer_indices) of
        Inl e \<Rightarrow> Inl e
      | Inr oxygen_A_neighbors \<Rightarrow>
          (case neighbors_indices vor (snd dimer_indices) of
             Inl e \<Rightarrow> Inl e
           | Inr oxygen_B_neighbors \<Rightarrow>
               Inr (set [fst dimer_indices, snd dimer_indices]
                      \<union> set oxygen_A_neighbors \<union> set oxygen_B_neighbors)))"

text \<open>
  \<open>remove_dimer_cations(dimer_indices)\<close>: the exception raised, if any, and the object
  after the call. The attribute \<open>_cation_configuration\<close> is read directly, and \<open>remove\<close>
  receives the whole list \<open>remove_indices\<close> as the element to delete.
\<close>

definition remove_dimer_cations :: "cathode \<Rightarrow> voronoi \<Rightarrow> nat \<times> nat \<Rightarrow> py_error option \<times> cathode" where
  "remove_dimer_cations c vor dimer_indices =
     (case get_dimer_environment vor dimer_indices of
        Inl e \<Rightarrow> (Some e, c)
      | Inr dimer_environment_indices \<Rightarrow>
          (let remove_indices =
                 filter (\<lambda>i. i \<in> dimer_environment_indices
                              \<and> specie (sites c ! i) \<in> set CATIONS)
                        [0 ..< length (sites c)]
           in (case cation_configuration_attr c of
                 None \<Rightarrow> (Some AttributeError, c)
               | Some cfg \<Rightarrow>
                   (case list_remove_by site_eq_index_list cfg remove_indices of
                      Inl e \<Rightarrow> (Some e, c)
                    | Inr cfg' \<Rightarrow> (None, c\<lparr>cation_configuration_attr := Some cfg'\<rparr>)))))"

section \<open>Coordinates\<close>

text \<open>Arithmetic of numpy floats: a \<open>NaN\<close> operand gives \<open>NaN\<close>.\<close>

fun fadd :: "npfloat \<Rightarrow> npfloat \<Rightarrow> npfloat" where
  "fadd (Fin x) (Fin y) = Fin (x + y)"
| "fadd _ _ = NaN"

fun fsub :: "npfloat \<Rightarrow> npfloat \<Rightarrow> npfloat" where
  "fsub (Fin x) (Fin y) = Fin (x - y)"
| "fsub _ _ = NaN"

fun fmul :: "npfloat \<Rightarrow> npfloat \<Rightarrow> npfloat" where
  "fmul (Fin x) (Fin y) = Fin (x * y)"
| "fmul _ _ = NaN"

fun fsqrt :: "npfloat \<Rightarrow> npfloat" where
  "fsqrt (Fin x) = (if x < 0 then NaN else Fin (sqrt x))"
| "fsqrt NaN = NaN"

text \<open>Division of a float by a finite, non-zero divisor.\<close>

fun fdiv_nz :: "npfloat \<Rightarrow> real \<Rightarrow> npfloat" where
  "fdiv_nz (Fin x) n = Fin (x / n)"
| "fdiv_nz NaN n = NaN"

fun fv_add :: "fvec \<Rightarrow> fvec \<Rightarrow> fvec" where
  "fv_add (a1, a2, a3) (b1, b2, b3) = (fadd a1 b1, fadd a2 b2, fadd a3 b3)"

fun fv_sub :: "fvec \<Rightarrow> fvec \<Rightarrow> fvec" where
  "fv_sub (a1, a2, a3) (b1, b2, b3) = (fsub a1 b1, fsub a2 b2, fsub a3 b3)"

fun fv_scale :: "npfloat \<Rightarrow> fvec \<Rightarrow> fvec" where
  "fv_scale k (a1, a2, a3) = (fmul k a1, fmul k a2, fmul k a3)"

text \<open>\<open>np.linalg.norm\<close> of a vector of three floats.\<close>

fun fv_norm :: "fvec \<Rightarrow> npfloat" where
  "fv_norm (a1, a2, a3) = fsqrt (fadd (fadd (fmul a1 a1) (fmul a2 a2)) (fmul a3 a3))"

text \<open>
  The in-place division \<open>v /= np.linalg.norm(v)\<close>. numpy raises no exception when the
  norm is zero: it warns and stores the quotients. The norm is zero only when every
  component of \<open>v\<close> is zero, and \<open>0.0 / 0.0\<close> is \<open>NaN\<close>.
\<close>

fun divide_by_norm :: "fvec \<Rightarrow> fvec" where
  "divide_by_norm (a1, a2, a3) =
     (case fv_norm (a1, a2, a3) of
        NaN \<Rightarrow> (NaN, NaN, NaN)
      | Fin n \<Rightarrow>
          if n = 0 then (NaN, NaN, NaN)
          else (fdiv_nz a1 n, fdiv_nz a2 n, fdiv_nz a3 n))"

definition of_image :: "ivec \<Rightarrow> fvec" where
  "of_image im = (case im of (i, j, k) \<Rightarrow> (Fin (of_int i), Fin (of_int j), Fin (of_int k)))"

text \<open>\<open>np.dot(v, m)\<close>: the row vector \<open>v\<close> times the matrix \<open>m\<close>.\<close>

fun fdot :: "fvec \<Rightarrow> rvec \<Rightarrow> npfloat" where
  "fdot (a1, a2, a3) (x1, x2, x3) =
     fadd (fadd (fmul a1 (Fin x1)) (fmul a2 (Fin x2))) (fmul a3 (Fin x3))"

fun vec_mat :: "fvec \<Rightarrow> matrix \<Rightarrow> fvec" where
  "vec_mat v ((m11, m12, m13), (m21, m22, m23), (m31, m32, m33)) =
     (fdot v (m11, m21, m31), fdot v (m12, m22, m32), fdot v (m13, m23, m33))"

fun det :: "matrix \<Rightarrow> real" where
  "det ((m11, m12, m13), (m21, m22, m23), (m31, m32, m33)) =
     m11 * (m22 * m33 - m23 * m32) - m12 * (m21 * m33 - m23 * m31)
       + m13 * (m21 * m32 - m22 * m31)"

text \<open>\<open>np.linalg.inv\<close> of a matrix with a non-zero determinant.\<close>

fun inv_matrix :: "matrix \<Rightarrow> matrix" where
  "inv_matrix ((m11, m12, m13), (m21, m22, m23), (m31, m32, m33)) =
     (let d = det ((m11, m12, m13), (m21, m22, m23), (m31, m32, m33)) in
      (((m22 * m33 - m23 * m32) / d, (m13 * m32 - m12 * m33) / d, (m12 * m23 - m13 * m22) / d),
       ((m23 * m31 - m21 * m33) / d, (m11 * m33 - m13 * m31) / d, (m13 * m21 - m11 * m23) / d),
       ((m21 * m32 - m22 * m31) / d, (m12 * m31 - m11 * m32) / d, (m11 * m22 - m12 * m21) / d)))"

text \<open>\<open>Lattice.get_cartesian_coords\<close> and \<open>Lattice.get_fractional_coords\<close>.\<close>

definition get_cartesian_coords :: "matrix \<Rightarrow> fvec \<Rightarrow> fvec" where
  "get_cartesian_coords L f = vec_mat f L"

definition get_fractional_coords :: "matrix \<Rightarrow> fvec \<Rightarrow> py_error + fvec" where
  "get_fractional_coords L x =
     (if det L = 0 then Inl LinAlgError else Inr (vec_mat x (inv_matrix L)))"

text \<open>\<open>site.coords\<close>: the cartesian coordinates of a site of a structure with lattice \<open>L\<close>.\<close>

definition coords :: "matrix \<Rightarrow> site \<Rightarrow> fvec" where
  "coords L s = get_cartesian_coords L (frac_coords s)"

text \<open>
  \<open>Structure.replace(i, species, coords, coords_are_cartesian=True, properties)\<close>:
  converts the cartesian coordinates to fractional ones and stores a new site at
  index \<open>i\<close>.
\<close>

definition replace :: "cathode \<Rightarrow> nat \<Rightarrow> string \<Rightarrow> fvec \<Rightarrow> (string \<rightharpoonup> real) \<Rightarrow> py_error + cathode" where
  "replace c i species xyz props =
     (case get_fractional_coords (lattice c) xyz of
        Inl e \<Rightarrow> Inl e
      | Inr f \<Rightarrow>
          if i < length (sites c)
          then Inr (c\<lparr>sites := (sites c)[i := \<lparr>specie = species, frac_coords = f,
                                                properties = props\<rparr>]\<rparr>)
          else Inl IndexError)"

section \<open>Changing the distance of two sites\<close>

text \<open>
  \<open>change_site_distance(site_indices, distance)\<close>. The method
  \<open>PeriodicSite.distance_and_image\<close> of the structure library is the parameter \<open>dai\<close>:
  for the lattice and two sites it returns the distance and the image of the second
  site that is closest to the first. The result is the exception raised, if any, and
  the object after the call.
\<close>

definition change_site_distance ::
  "(matrix \<Rightarrow> site \<Rightarrow> site \<Rightarrow> npfloat \<times> ivec) \<Rightarrow> cathode \<Rightarrow> nat \<times> nat \<Rightarrow> real
     \<Rightarrow> py_error option \<times> cathode" where
  "change_site_distance dai c site_indices distance =
     (case py_getitem (sites c) (fst site_indices) of
        Inl e \<Rightarrow> (Some e, c)
      | Inr site_A \<Rightarrow>
     (case py_getitem (sites c) (snd site_indices) of
        Inl e \<Rightarrow> (Some e, c)
      | Inr site_B \<Rightarrow>
     (case dai (lattice c) site_A site_B of
        (original_distance, closest_image_B) \<Rightarrow>
     (let image_cart_coords =
            get_cartesian_coords (lattice c)
              (fv_add (frac_coords site_B) (of_image closest_image_B));
          connection_vector = fv_sub image_cart_coords (coords (lattice c) site_A);
          connection_vector = divide_by_norm connection_vector;
          site_move_distance = fdiv_nz (fsub original_distance (Fin distance)) 2;
          new_site_A_coords =
            fv_add (coords (lattice c) site_A) (fv_scale site_move_distance connection_vector);
          new_site_B_coords =
            fv_sub (coords (lattice c) site_B) (fv_scale site_move_distance connection_vector)
      in (case replace c (fst site_indices) (specie site_A) new_site_A_coords
                 (properties site_A) of
            Inl e \<Rightarrow> (Some e, c)
          | Inr c1 \<Rightarrow>
         (case replace c1 (snd site_indices) (specie site_B) new_site_B_coords
                 (properties site_B) of
            Inl e \<Rightarrow> (Some e, c1)
          | Inr c2 \<Rightarrow> (None, c2)))))))"

text \<open>
  Modelled from the spec: the minimum-image search of the structure library, which is
  not part of the repository. The 27 translations of \<open>{-1,0,1}\<^sup>3\<close> are applied to the
  fractional position of the second site, each candidate is converted to cartesian
  coordinates, and the translation with the smallest Euclidean norm of the displacement
  is selected, the first one found on ties. The squared norms are compared and the
  root of the smallest is returned.
\<close>

definition images27 :: "ivec list" where
  "images27 = concat (map (\<lambda>i. concat (map (\<lambda>j. map (\<lambda>k. (i, j, k)) [-1, 0, 1]) [-1, 0, 1])) [-1, 0, 1])"

fun fv_norm2 :: "fvec \<Rightarrow> npfloat" where
  "fv_norm2 (a1, a2, a3) = fadd (fadd (fmul a1 a1) (fmul a2 a2)) (fmul a3 a3)"

fun fless :: "npfloat \<Rightarrow> npfloat \<Rightarrow> bool" where
  "fless (Fin x) (Fin y) = (x < y)"
| "fless _ _ = False"

definition image_norm2 :: "matrix \<Rightarrow> fvec \<Rightarrow> fvec \<Rightarrow> ivec \<Rightarrow> npfloat" where
  "image_norm2 L fa fb im =
     fv_norm2 (fv_sub (get_cartesian_coords L (fv_add fb (of_image im)))
                      (get_cartesian_coords L fa))"

fun best_image :: "matrix \<Rightarrow> fvec \<Rightarrow> fvec \<Rightarrow> npfloat \<times> ivec \<Rightarrow> ivec list \<Rightarrow> npfloat \<times> ivec" where
  "best_image L fa fb best [] = best"
| "best_image L fa fb best (im # ims) =
     best_image L fa fb
       (if fless (image_norm2 L fa fb im) (fst best) then (image_norm2 L fa fb im, im) else best)
       ims"

definition minimum_image :: "matrix \<Rightarrow> site \<Rightarrow> site \<Rightarrow> npfloat \<times> ivec" where
  "minimum_image L site_A site_B =
     (case best_image L (frac_coords site_A) (frac_coords site_B)
             (image_norm2 L (frac_coords site_A) (frac_coords site_B) (hd images27), hd images27)
             (tl images27) of
        (d2, im) \<Rightarrow> (fsqrt d2, im))"

section \<open>Notions used in the statements\<close>

text \<open>The set of Voronoi neighbours of site \<open>i\<close>, and the oxygen neighbours of a pivot.\<close>

definition nbset :: "voronoi \<Rightarrow> nat \<Rightarrow> nat set" where
  "nbset vor i = set (map nb_index (vor ! i))"

definition oxygen_neighbors :: "site list \<Rightarrow> voronoi \<Rightarrow> nat \<Rightarrow> nat list" where
  "oxygen_neighbors ss vor i = filter (\<lambda>j. specie (ss ! j) = ''O'') (map nb_index (vor ! i))"

text \<open>
  Vectors of finite floats are vectors of reals: \<open>fin3\<close> embeds them, and the operations
  below are the real counterparts of the float operations.
\<close>

fun fin3 :: "rvec \<Rightarrow> fvec" where
  "fin3 (x, y, z) = (Fin x, Fin y, Fin z)"

fun radd :: "rvec \<Rightarrow> rvec \<Rightarrow> rvec" where
  "radd (a1, a2, a3) (b1, b2, b3) = (a1 + b1, a2 + b2, a3 + b3)"

fun rsub :: "rvec \<Rightarrow> rvec \<Rightarrow> rvec" where
  "rsub (a1, a2, a3) (b1, b2, b3) = (a1 - b1, a2 - b2, a3 - b3)"

fun rscale :: "real \<Rightarrow> rvec \<Rightarrow> rvec" where
  "rscale k (a1, a2, a3) = (k * a1, k * a2, k * a3)"

fun rnorm :: "rvec \<Rightarrow> real" where
  "rnorm (a1, a2, a3) = sqrt (a1 * a1 + a2 * a2 + a3 * a3)"

fun rvm :: "rvec \<Rightarrow> matrix \<Rightarrow> rvec" where
  "rvm (a1, a2, a3) ((m11, m12, m13), (m21, m22, m23), (m31, m32, m33)) =
     (a1 * m11 + a2 * m21 + a3 * m31,
      a1 * m12 + a2 * m22 + a3 * m32,
      a1 * m13 + a2 * m23 + a3 * m33)"

fun rimage :: "ivec \<Rightarrow> rvec" where
  "rimage (i, j, k) = (of_int i, of_int j, of_int k)"

text \<open>
  The cartesian position of the periodic image \<open>im\<close> of a site, the vector from site \<open>A\<close>
  to that image of site \<open>B\<close>, and the midpoint of the two.
\<close>

definition image_coords :: "matrix \<Rightarrow> site \<Rightarrow> ivec \<Rightarrow> fvec" where
  "image_coords L s im = get_cartesian_coords L (fv_add (frac_coords s) (of_image im))"

definition connection :: "matrix \<Rightarrow> site \<Rightarrow> site \<Rightarrow> ivec \<Rightarrow> fvec" where
  "connection L site_A site_B im = fv_sub (image_coords L site_B im) (coords L site_A)"


section \<open>Example structures\<close>

definition site_at :: "string \<Rightarrow> real \<Rightarrow> real \<Rightarrow> real \<Rightarrow> site" where
  "site_at sp x y z = \<lparr>specie = sp, frac_coords = (Fin x, Fin y, Fin z), properties = Map.empty\<rparr>"

definition nb :: "nat \<Rightarrow> neighbor" where
  "nb i = \<lparr>nb_index = i, nb_image = (0, 0, 0)\<rparr>"

definition cubic4 :: matrix where
  "cubic4 = ((4, 0, 0), (0, 4, 0), (0, 0, 4))"

text \<open>
  Eight sites around a manganese pivot at index 0, with oxygens at 1, 2, 5 and 7. The
  oxygen pairs share one, two or three neighbours.
\<close>

definition ex_sites :: "site list" where
  "ex_sites =
     [site_at ''Mn'' 0 0 0, site_at ''O'' (1/4) 0 0, site_at ''O'' 0 (1/4) 0,
      site_at ''Li'' (1/2) (1/2) 0, site_at ''Li'' (1/2) 0 (1/2), site_at ''O'' 0 0 (1/4),
      site_at ''Na'' 0 (1/2) (1/2), site_at ''O'' (3/4) 0 0]"

definition ex_vor :: voronoi where
  "ex_vor =
     [[nb 1, nb 2, nb 3, nb 5, nb 7],
      [nb 0, nb 3, nb 4],
      [nb 0, nb 3, nb 4],
      [nb 0, nb 1, nb 2, nb 7],
      [nb 1, nb 3],
      [nb 0, nb 6],
      [nb 5, nb 7],
      [nb 0, nb 3, nb 6]]"

text \<open>
  A small cell: the pivot at index 0 reaches the oxygen at index 1 in two periodic
  images.
\<close>

definition small_sites :: "site list" where
  "small_sites = [site_at ''Mn'' 0 0 0, site_at ''O'' (1/2) 0 0, site_at ''Li'' 0 (1/2) (1/2)]"

definition small_vor :: voronoi where
  "small_vor =
     [[nb 1, \<lparr>nb_index = 1, nb_image = (-1, 0, 0)\<rparr>, nb 2],
      [nb 0, \<lparr>nb_index = 0, nb_image = (1, 0, 0)\<rparr>, nb 2],
      [nb 0, nb 1]]"

text \<open>Cation sites, an oxygen site, and a cathode whose configuration holds two cations.\<close>

definition li_a :: site where "li_a = site_at ''Li'' (1/2) (1/2) 0"
definition li_b :: site where "li_b = site_at ''Li'' (1/2) 0 (1/2)"
definition na_c :: site where "na_c = site_at ''Na'' 0 (1/2) (1/2)"
definition o_d :: site where "o_d = site_at ''O'' (1/4) 0 0"

definition ex_cathode :: cathode where
  "ex_cathode = \<lparr>lattice = cubic4, sites = [li_a, li_b, na_c, o_d],
                  cation_configuration_attr = Some [li_b, na_c]\<rparr>"


definition coincident_cathode :: cathode where
  "coincident_cathode = \<lparr>lattice = cubic4,
                          sites = [site_at ''O'' (1/4) 0 0, site_at ''Li'' (1/4) 0 0],
                          cation_configuration_attr = None\<rparr>"

definition nan_site :: "string \<Rightarrow> site" where
  "nan_site sp = \<lparr>specie = sp, frac_coords = (NaN, NaN, NaN), properties = Map.empty\<rparr>"

section \<open>Oxygen dimers: properties\<close>

lemma length_shared_neighbours: "length (shared_neighbours A B) = card (set A \<inter> set B)"
proof -
  have "set (filter (\<lambda>x. x \<in> set B) A) = set A \<inter> set B" by auto
  then show ?thesis
    unfolding shared_neighbours_def by (metis length_remdups_card_conv)
qed

lemma neighbors_indices_Inr:
  "neighbors_indices vor i = Inr ns \<longleftrightarrow> i < length vor \<and> ns = map nb_index (vor ! i)"
  by (auto simp: neighbors_indices_def py_getitem_def)

lemma oxygen_filter_Inr:
  "oxygen_filter ss js = Inr keep \<Longrightarrow>
     keep = filter (\<lambda>j. specie (ss ! j) = ''O'') js \<and> (\<forall>j \<in> set js. j < length ss)"
  by (induction js arbitrary: keep)
     (auto simp: py_getitem_def split: sum.splits if_splits)

lemma oxygen_filter_total:
  "\<forall>j \<in> set js. j < length ss \<Longrightarrow>
     oxygen_filter ss js = Inr (filter (\<lambda>j. specie (ss ! j) = ''O'') js)"
  by (induction js) (auto simp: py_getitem_def)

lemma dimer_loop_Inr:
  "dimer_loop vor ps = Inr ds \<Longrightarrow>
     ds = filter (\<lambda>p. card (nbset vor (fst p) \<inter> nbset vor (snd p)) = 2) ps"
proof (induction ps arbitrary: ds)
  case Nil
  then show ?case by simp
next
  case (Cons p ps)
  then show ?case
    by (auto simp: neighbors_indices_Inr length_shared_neighbours nbset_def
             split: sum.splits if_splits)
qed

lemma dimer_loop_total:
  "\<forall>p \<in> set ps. fst p < length vor \<and> snd p < length vor \<Longrightarrow>
     dimer_loop vor ps =
       Inr (filter (\<lambda>p. card (nbset vor (fst p) \<inter> nbset vor (snd p)) = 2) ps)"
  by (induction ps)
     (auto simp: neighbors_indices_def py_getitem_def length_shared_neighbours nbset_def)

lemma find_oxygen_dimers_Inr:
  assumes "find_oxygen_dimers ss vor i = Inr ds"
  shows "ds = filter (\<lambda>p. card (nbset vor (fst p) \<inter> nbset vor (snd p)) = 2)
                (combinations2 (oxygen_neighbors ss vor i))"
  using assms
  by (auto simp: find_oxygen_dimers_def neighbors_indices_Inr oxygen_neighbors_def
           split: sum.splits if_splits dest!: oxygen_filter_Inr dimer_loop_Inr)

lemma set_combinations2: "set (combinations2 xs) \<subseteq> set xs \<times> set xs"
  by (induction xs) auto

lemma combinations2_distinct: "distinct xs \<Longrightarrow> (a, a) \<notin> set (combinations2 xs)"
proof (induction xs)
  case Nil
  then show ?case by simp
next
  case (Cons x xs)
  then show ?case by auto
qed

text \<open>
  With in-range neighbour indices and at least two oxygen neighbours the search returns:
  it is the filter of the oxygen pairs by the shared-neighbour count.
\<close>

lemma find_oxygen_dimers_returns:
  assumes "site_index < length vor"
    and "\<forall>j \<in> set (map nb_index (vor ! site_index)). j < length ss \<and> j < length vor"
    and "2 \<le> length (oxygen_neighbors ss vor site_index)"
  shows "find_oxygen_dimers ss vor site_index =
           Inr (filter (\<lambda>p. card (nbset vor (fst p) \<inter> nbset vor (snd p)) = 2)
                  (combinations2 (oxygen_neighbors ss vor site_index)))"
proof -
  have f: "oxygen_filter ss (map nb_index (vor ! site_index))
             = Inr (oxygen_neighbors ss vor site_index)"
    using assms(2) by (simp add: oxygen_filter_total oxygen_neighbors_def)
  have "set (oxygen_neighbors ss vor site_index) \<subseteq> {j. j < length vor}"
    using assms(2) by (auto simp: oxygen_neighbors_def)
  then have "\<forall>p \<in> set (combinations2 (oxygen_neighbors ss vor site_index)).
               fst p < length vor \<and> snd p < length vor"
    using set_combinations2 [of "oxygen_neighbors ss vor site_index"] by fastforce
  then have "dimer_loop vor (combinations2 (oxygen_neighbors ss vor site_index)) =
               Inr (filter (\<lambda>p. card (nbset vor (fst p) \<inter> nbset vor (snd p)) = 2)
                      (combinations2 (oxygen_neighbors ss vor site_index)))"
    by (rule dimer_loop_total)
  then show ?thesis
    using assms(1,3) f
    by (simp add: find_oxygen_dimers_def neighbors_indices_def py_getitem_def)
qed

lemma ex_find: "find_oxygen_dimers ex_sites ex_vor 0 = Inr [(1, 7), (2, 7), (5, 7)]"
  by (simp add: find_oxygen_dimers_def neighbors_indices_def py_getitem_def
        shared_neighbours_def ex_sites_def ex_vor_def site_at_def nb_def)





text \<open>
  Claim C6. For a pivot whose neighbour list is available and in range, fewer than two
  oxygen neighbours make \<open>find_oxygen_dimers\<close> raise \<open>ValueError\<close> (the spec's
  InsufficientNeighbors); no list of pairs is returned.
\<close>

theorem find_oxygen_dimers_insufficient:
  assumes "site_index < length vor"
    and "\<forall>j \<in> set (map nb_index (vor ! site_index)). j < length ss"
    and "length (oxygen_neighbors ss vor site_index) < 2"
  shows "find_oxygen_dimers ss vor site_index = Inl ValueError"
  using assms
  by (simp add: find_oxygen_dimers_def neighbors_indices_def py_getitem_def
        oxygen_filter_total oxygen_neighbors_def)

text \<open>Witness for C6: site 4 of the example has one oxygen neighbour.\<close>

theorem find_oxygen_dimers_insufficient_witness:
  "4 < length ex_vor
   \<and> map nb_index (ex_vor ! 4) = [1, 3] \<and> length ex_sites = 8
   \<and> length (oxygen_neighbors ex_sites ex_vor 4) < 2
   \<and> find_oxygen_dimers ex_sites ex_vor 4 = Inl ValueError"
proof -
  have a: "4 < length ex_vor" by (simp add: ex_vor_def)
  have b: "\<forall>j \<in> set (map nb_index (ex_vor ! 4)). j < length ex_sites"
    by (simp add: ex_vor_def ex_sites_def nb_def)
  have c: "length (oxygen_neighbors ex_sites ex_vor 4) < 2"
    by (simp add: oxygen_neighbors_def ex_sites_def ex_vor_def site_at_def nb_def)
  have d: "map nb_index (ex_vor ! 4) = [1, 3] \<and> length ex_sites = 8"
    by (simp add: ex_vor_def ex_sites_def nb_def)
  show ?thesis
    using a c d find_oxygen_dimers_insufficient [OF a b c] by simp
qed

text \<open>
  Claim C8, as stated, fails: the oxygen neighbours are enumerated by position in the
  neighbour list, so an oxygen that is reached in two periodic images is paired with
  itself. In the small cell the pair \<open>(1, 1)\<close> is returned.
\<close>

theorem find_oxygen_dimers_self_pair_counterexample:
  "find_oxygen_dimers small_sites small_vor 0 = Inr [(1, 1)]"
  by (simp add: find_oxygen_dimers_def neighbors_indices_def py_getitem_def
        shared_neighbours_def small_sites_def small_vor_def site_at_def nb_def)

text \<open>
  Claim C8, amended. When the oxygen-neighbour indices of the pivot are pairwise
  distinct, no pair \<open>(a, b)\<close> returned by \<open>find_oxygen_dimers\<close> has \<open>a = b\<close>.
\<close>

theorem find_oxygen_dimers_no_self_pair:
  assumes "find_oxygen_dimers ss vor site_index = Inr ds"
    and "distinct (oxygen_neighbors ss vor site_index)"
  shows "\<forall>(a, b) \<in> set ds. a \<noteq> b"
  using find_oxygen_dimers_Inr [OF assms(1)] combinations2_distinct [OF assms(2)] by auto

text \<open>Witness for the amended C8: the example has four distinct oxygen neighbours.\<close>

theorem find_oxygen_dimers_no_self_pair_witness:
  "find_oxygen_dimers ex_sites ex_vor 0 = Inr [(1, 7), (2, 7), (5, 7)]
   \<and> distinct (oxygen_neighbors ex_sites ex_vor 0)
   \<and> fst (1::nat, 7::nat) \<noteq> snd (1::nat, 7::nat)"
proof -
  have h: "find_oxygen_dimers ex_sites ex_vor 0 = Inr [(1, 7), (2, 7), (5, 7)]"
    by (rule ex_find)
  have d: "distinct (oxygen_neighbors ex_sites ex_vor 0)"
    by (simp add: oxygen_neighbors_def ex_sites_def ex_vor_def site_at_def nb_def)
  show ?thesis
    using h d find_oxygen_dimers_no_self_pair [OF h d] by simp
qed

text \<open>
  Claim C5. For a pair \<open>(a, b)\<close> of indices within the bounds of the Voronoi container,
  \<open>get_dimer_environment\<close> returns exactly the union of \<open>{a, b}\<close> and the neighbour index
  sets of \<open>a\<close> and of \<open>b\<close>; the neighbours are not filtered by species.
\<close>

theorem get_dimer_environment_union:
  assumes "a < length vor" and "b < length vor"
  shows "get_dimer_environment vor (a, b) = Inr ({a, b} \<union> nbset vor a \<union> nbset vor b)"
  using assms
  by (simp add: get_dimer_environment_def neighbors_indices_def py_getitem_def nbset_def)

text \<open>Witness for C5: the environment of the dimer \<open>(1, 7)\<close> of the example.\<close>

theorem get_dimer_environment_union_witness:
  "1 < length ex_vor \<and> 7 < length ex_vor
   \<and> get_dimer_environment ex_vor (1, 7) = Inr {0, 1, 3, 4, 6, 7}"
proof -
  have a: "1 < length ex_vor" and b: "7 < length ex_vor" by (simp_all add: ex_vor_def)
  have "{1, 7} \<union> nbset ex_vor 1 \<union> nbset ex_vor 7 = {0, 1, 3, 4, 6, 7::nat}"
    by (auto simp: nbset_def ex_vor_def nb_def)
  then show ?thesis
    using a b get_dimer_environment_union [OF a b] by simp
qed

section \<open>The cation configuration: properties\<close>

lemma list_remove_by_never: "list_remove_by site_eq_index_list cfg idxs = Inl ValueError"
  by (induction cfg) (simp_all add: site_eq_index_list_def)

lemma list_remove_by_absent: "s \<notin> set xs \<Longrightarrow> list_remove_by (=) xs s = Inl ValueError"
  by (induction xs) auto

lemma remove_loop_append:
  "remove_loop cfg (pre @ rest) =
     (case remove_loop cfg pre of
        (None, cfg') \<Rightarrow> remove_loop cfg' rest
      | (Some e, cfg') \<Rightarrow> (Some e, cfg'))"
proof (induction pre arbitrary: cfg)
  case Nil
  then show ?case by simp
next
  case (Cons s pre)
  show ?case
  proof (cases "specie s \<in> set CATIONS")
    case False
    then show ?thesis by simp
  next
    case cat: True
    show ?thesis
    proof (cases cfg)
      case None
      with cat show ?thesis by simp
    next
      case (Some xs)
      show ?thesis
      proof (cases "list_remove_by (=) xs s")
        case (Inl e)
        with cat Some show ?thesis by simp
      next
        case (Inr xs')
        with cat Some Cons.IH [of "Some xs'"] show ?thesis by simp
      qed
    qed
  qed
qed


text \<open>
  Claim C10. \<open>remove_dimer_cations\<close> always raises and leaves the object as it was: an
  error of \<open>get_dimer_environment\<close>, \<open>AttributeError\<close> when the configuration was never
  initialised, and otherwise \<open>ValueError\<close>, since the list of indices is no member of a
  list of sites.
\<close>

theorem remove_dimer_cations_always_raises:
  "\<exists>e. remove_dimer_cations c vor dimer_indices = (Some e, c)"
  by (simp add: remove_dimer_cations_def list_remove_by_never split: sum.splits option.splits)

text \<open>
  Claim C4, as stated, fails: removing a cation site that is not in the configuration
  is not ignored. The \<open>ValueError\<close> of the list is caught and a \<open>Warning\<close> exception is
  raised to the caller.
\<close>

theorem remove_cations_absent_counterexample:
  "remove_cations ex_cathode (Some [li_a]) = (Some Warning, ex_cathode)"
  by (simp add: remove_cations_def ex_cathode_def li_a_def li_b_def na_c_def site_at_def
        CATIONS_def)

text \<open>
  Claim C4, amended. When the loop of \<open>remove_cations\<close> reaches a cation site that is not
  in the configuration, the call raises a \<open>Warning\<close> exception to the caller: the sites
  requested before it stay removed and the sites after it are not processed.
\<close>

theorem remove_cations_absent_raises_warning:
  assumes "specie s \<in> set CATIONS"
    and "remove_loop (cation_configuration_attr c) pre = (None, Some xs)"
    and "s \<notin> set xs"
  shows "remove_cations c (Some (pre @ s # post))
           = (Some Warning, c\<lparr>cation_configuration_attr := Some xs\<rparr>)"
proof -
  from assms(3) have e: "list_remove_by (=) xs s = Inl ValueError"
    by (rule list_remove_by_absent)
  have "remove_loop (Some xs) (s # post) = (Some Warning, Some xs)"
    using assms(1) e by simp
  then have "remove_loop (cation_configuration_attr c) (pre @ s # post) = (Some Warning, Some xs)"
    by (simp only: remove_loop_append assms(2) prod.case option.case)
  then show ?thesis
    by (simp only: remove_cations_def option.case prod.case)
qed

text \<open>Witness for the amended C4.\<close>

theorem remove_cations_absent_raises_warning_witness:
  "specie li_a \<in> set CATIONS
   \<and> remove_loop (cation_configuration_attr ex_cathode) [li_b] = (None, Some [na_c])
   \<and> li_a \<notin> set [na_c]
   \<and> remove_cations ex_cathode (Some ([li_b] @ li_a # [na_c]))
       = (Some Warning, ex_cathode\<lparr>cation_configuration_attr := Some [na_c]\<rparr>)"
proof -
  have a: "specie li_a \<in> set CATIONS" by (simp add: li_a_def site_at_def CATIONS_def)
  have b: "remove_loop (cation_configuration_attr ex_cathode) [li_b] = (None, Some [na_c])"
    by (simp add: ex_cathode_def li_b_def site_at_def CATIONS_def)
  have c: "li_a \<notin> set [na_c]" by (simp add: li_a_def na_c_def site_at_def)
  show ?thesis
    using a b c remove_cations_absent_raises_warning [OF a b c, of "[na_c]"] by simp
qed

text \<open>
  Claim C7, as stated, fails: a request that holds a non-cation site does not always
  fail with \<open>IOError\<close> (the spec's NotACation). An earlier site of the request that is
  absent from the configuration ends the call with \<open>Warning\<close> before the non-cation site
  is looked at.
\<close>

theorem remove_cations_non_cation_counterexample:
  "remove_cations ex_cathode (Some [li_a, o_d]) = (Some Warning, ex_cathode)"
  by (simp add: remove_cations_def ex_cathode_def li_a_def li_b_def na_c_def site_at_def
        CATIONS_def)

text \<open>
  On an initialised configuration a request of cation sites either removes them all, or
  stops with \<open>Warning\<close> at the first site that is absent at its turn.
\<close>

lemma list_remove_by_present:
  "s \<in> set xs \<Longrightarrow> \<exists>ys. list_remove_by (=) xs s = Inr ys"
proof (induction xs)
  case Nil
  then show ?case by simp
next
  case (Cons x xs)
  show ?case
  proof (cases "x = s")
    case True
    then show ?thesis by simp
  next
    case False
    with Cons obtain ys where "list_remove_by (=) xs s = Inr ys" by auto
    with False show ?thesis by simp
  qed
qed

lemma list_remove_by_Inl_absent:
  assumes "list_remove_by (=) xs s = Inl e"
  shows "s \<notin> set xs"
proof
  assume "s \<in> set xs"
  then have "\<exists>ys. list_remove_by (=) xs s = Inr ys"
    by (rule list_remove_by_present)
  with assms show False by auto
qed

lemma remove_loop_cations:
  assumes "\<forall>p \<in> set pre. specie p \<in> set CATIONS"
  shows "(\<exists>ys. remove_loop (Some xs) pre = (None, Some ys))
       \<or> (\<exists>p1 t p2 ys. pre = p1 @ t # p2 \<and> remove_loop (Some xs) p1 = (None, Some ys)
             \<and> t \<notin> set ys \<and> remove_loop (Some xs) pre = (Some Warning, Some ys))"
  using assms
proof (induction pre arbitrary: xs)
  case Nil
  then show ?case by simp
next
  case (Cons t pre)
  then have t: "specie t \<in> set CATIONS" and rest: "\<forall>p \<in> set pre. specie p \<in> set CATIONS"
    by simp_all
  show ?case
  proof (cases "list_remove_by (=) xs t")
    case (Inl e)
    then have "t \<notin> set xs" by (rule list_remove_by_Inl_absent)
    moreover have "remove_loop (Some xs) (t # pre) = (Some Warning, Some xs)"
      using t Inl by simp
    moreover have "t # pre = [] @ t # pre" "remove_loop (Some xs) [] = (None, Some xs)"
      by simp_all
    ultimately show ?thesis by blast
  next
    case (Inr xs')
    then have step: "remove_loop (Some xs) (t # q) = remove_loop (Some xs') q" for q
      using t by simp
    from Cons.IH [OF rest, of xs'] show ?thesis
    proof
      assume "\<exists>ys. remove_loop (Some xs') pre = (None, Some ys)"
      then show ?thesis unfolding step by blast
    next
      assume "\<exists>p1 u p2 ys. pre = p1 @ u # p2 \<and> remove_loop (Some xs') p1 = (None, Some ys)
                \<and> u \<notin> set ys \<and> remove_loop (Some xs') pre = (Some Warning, Some ys)"
      then obtain p1 u p2 ys where h: "pre = p1 @ u # p2"
        "remove_loop (Some xs') p1 = (None, Some ys)" "u \<notin> set ys"
        "remove_loop (Some xs') pre = (Some Warning, Some ys)" by blast
      have a: "t # pre = (t # p1) @ u # p2" using h(1) by simp
      have b: "remove_loop (Some xs) (t # p1) = (None, Some ys)"
        using h(2) by (simp only: step)
      have c: "remove_loop (Some xs) (t # pre) = (Some Warning, Some ys)"
        using h(4) by (simp only: step)
      from a b c h(3) show ?thesis by blast
    qed
  qed
qed

text \<open>
  Claim C7, amended. On an initialised configuration, a request that holds a non-cation
  site never succeeds. At the first such site the call fails with \<open>IOError\<close> (the spec's
  NotACation) when every site requested before it was removed without an error;
  otherwise it fails with the \<open>Warning\<close> raised for the first earlier site that is absent
  from the configuration at its turn, and the configuration is left as it was then.
\<close>

theorem remove_cations_non_cation_fails:
  assumes s: "specie s \<notin> set CATIONS"
    and pre: "\<forall>p \<in> set pre. specie p \<in> set CATIONS"
    and cfg: "cation_configuration_attr c = Some xs"
  shows "fst (remove_cations c (Some (pre @ s # post))) \<noteq> None
       \<and> (fst (remove_loop (Some xs) pre) = None \<longrightarrow>
            remove_cations c (Some (pre @ s # post))
              = (Some IOError,
                 c\<lparr>cation_configuration_attr := snd (remove_loop (Some xs) pre)\<rparr>))
       \<and> (fst (remove_loop (Some xs) pre) \<noteq> None \<longrightarrow>
            (\<exists>p1 t p2 ys. pre = p1 @ t # p2
               \<and> remove_loop (Some xs) p1 = (None, Some ys) \<and> t \<notin> set ys
               \<and> remove_cations c (Some (pre @ s # post))
                   = (Some Warning, c\<lparr>cation_configuration_attr := Some ys\<rparr>)))"
proof -
  have step: "remove_loop cfg' (s # post) = (Some IOError, cfg')" for cfg'
    using s by simp
  from remove_loop_cations [OF pre, of xs] show ?thesis
  proof
    assume "\<exists>ys. remove_loop (Some xs) pre = (None, Some ys)"
    then obtain ys where ys: "remove_loop (Some xs) pre = (None, Some ys)" by blast
    have "remove_loop (Some xs) (pre @ s # post) = (Some IOError, Some ys)"
      by (simp only: remove_loop_append ys prod.case option.case step)
    then have "remove_cations c (Some (pre @ s # post))
                 = (Some IOError, c\<lparr>cation_configuration_attr := Some ys\<rparr>)"
      by (simp only: remove_cations_def cfg option.case prod.case)
    with ys show ?thesis by simp
  next
    assume "\<exists>p1 t p2 ys. pre = p1 @ t # p2 \<and> remove_loop (Some xs) p1 = (None, Some ys)
              \<and> t \<notin> set ys \<and> remove_loop (Some xs) pre = (Some Warning, Some ys)"
    then obtain p1 t p2 ys where h: "pre = p1 @ t # p2"
      "remove_loop (Some xs) p1 = (None, Some ys)" "t \<notin> set ys"
      and w: "remove_loop (Some xs) pre = (Some Warning, Some ys)" by blast
    have "remove_loop (Some xs) (pre @ s # post) = (Some Warning, Some ys)"
      by (simp only: remove_loop_append w prod.case option.case)
    then have r: "remove_cations c (Some (pre @ s # post))
                 = (Some Warning, c\<lparr>cation_configuration_attr := Some ys\<rparr>)"
      by (simp only: remove_cations_def cfg option.case prod.case)
    have "\<exists>p1 t p2 ys. pre = p1 @ t # p2
               \<and> remove_loop (Some xs) p1 = (None, Some ys) \<and> t \<notin> set ys
               \<and> remove_cations c (Some (pre @ s # post))
                   = (Some Warning, c\<lparr>cation_configuration_attr := Some ys\<rparr>)"
      using h r by blast
    with w r show ?thesis by simp
  qed
qed

text \<open>
  Witness for the amended C7: a request whose sites before the oxygen are removed, and
  a request in which an absent lithium comes before the oxygen.
\<close>

theorem remove_cations_non_cation_fails_witness:
  "specie o_d \<notin> set CATIONS
   \<and> specie li_a \<in> set CATIONS \<and> specie li_b \<in> set CATIONS
   \<and> cation_configuration_attr ex_cathode = Some [li_b, na_c]
   \<and> fst (remove_loop (Some [li_b, na_c]) [li_b]) = None
   \<and> remove_cations ex_cathode (Some ([li_b] @ o_d # [na_c]))
       = (Some IOError, ex_cathode\<lparr>cation_configuration_attr := Some [na_c]\<rparr>)
   \<and> fst (remove_loop (Some [li_b, na_c]) [li_b, li_a]) = Some Warning
   \<and> fst (remove_cations ex_cathode (Some ([li_b, li_a] @ o_d # []))) = Some Warning"
proof -
  have s: "specie o_d \<notin> set CATIONS" by (simp add: o_d_def site_at_def CATIONS_def)
  have ca: "specie li_a \<in> set CATIONS" and cb: "specie li_b \<in> set CATIONS"
    by (simp_all add: li_a_def li_b_def site_at_def CATIONS_def)
  have p1: "\<forall>p \<in> set [li_b]. specie p \<in> set CATIONS" using cb by simp
  have p2: "\<forall>p \<in> set [li_b, li_a]. specie p \<in> set CATIONS" using ca cb by simp
  have cfg: "cation_configuration_attr ex_cathode = Some [li_b, na_c]"
    by (simp add: ex_cathode_def)
  have l1: "remove_loop (Some [li_b, na_c]) [li_b] = (None, Some [na_c])"
    using cb by simp
  have l2: "remove_loop (Some [li_b, na_c]) [li_b, li_a] = (Some Warning, Some [na_c])"
    using ca cb by (simp add: li_a_def na_c_def li_b_def site_at_def)
  have r1: "remove_cations ex_cathode (Some ([li_b] @ o_d # [na_c]))
              = (Some IOError, ex_cathode\<lparr>cation_configuration_attr := Some [na_c]\<rparr>)"
    using remove_cations_non_cation_fails [OF s p1 cfg, of "[na_c]"] l1 by simp
  have r2: "fst (remove_cations ex_cathode (Some ([li_b, li_a] @ o_d # []))) = Some Warning"
    using remove_cations_non_cation_fails [OF s p2 cfg, of "[]"] l2 by auto
  from s ca cb cfg l1 l2 r1 r2 show ?thesis by simp
qed

section \<open>Changing the distance of two sites: properties\<close>

lemma fv_add_fin3: "fv_add (fin3 a) (fin3 b) = fin3 (radd a b)"
  by (cases a; cases b) simp

lemma fv_sub_fin3: "fv_sub (fin3 a) (fin3 b) = fin3 (rsub a b)"
  by (cases a; cases b) simp

lemma fv_scale_fin3: "fv_scale (Fin k) (fin3 a) = fin3 (rscale k a)"
  by (cases a) simp

lemma fv_norm_fin3: "fv_norm (fin3 a) = Fin (rnorm a)"
proof (cases a)
  case (fields x y z)
  have "0 \<le> x * x + y * y + z * z" by simp
  then show ?thesis using fields by (simp add: not_less [symmetric])
qed

lemma vec_mat_fin3: "vec_mat (fin3 a) M = fin3 (rvm a M)"
  by (cases a; cases M rule: prod.exhaust) (auto)

lemma of_image_fin3: "of_image im = fin3 (rimage im)"
  by (cases im) (simp add: of_image_def)

lemma rnorm_zero_iff: "rnorm a = 0 \<longleftrightarrow> a = (0, 0, 0)"
proof (cases a)
  case (fields x y z)
  have "x * x + y * y + z * z = 0 \<longleftrightarrow> x = 0 \<and> y = 0 \<and> z = 0"
    by (metis (no_types) add_nonneg_eq_0_iff mult_eq_0_iff zero_le_square add_nonneg_nonneg)
  then show ?thesis using fields by simp
qed

lemma divide_by_norm_fin3:
  "divide_by_norm (fin3 a) =
     (if rnorm a = 0 then (NaN, NaN, NaN) else fin3 (rscale (1 / rnorm a) a))"
proof (cases a)
  case (fields x y z)
  have "fv_norm (Fin x, Fin y, Fin z) = Fin (rnorm a)"
    using fv_norm_fin3 [of a] fields by simp
  then show ?thesis using fields by simp
qed

lemma fadd_Fin_iff: "fadd x y = Fin r \<longleftrightarrow> (\<exists>p q. x = Fin p \<and> y = Fin q \<and> r = p + q)"
  by (cases x; cases y) auto

lemma fsub_Fin_iff: "fsub x y = Fin r \<longleftrightarrow> (\<exists>p q. x = Fin p \<and> y = Fin q \<and> r = p - q)"
  by (cases x; cases y) auto

lemma fmul_Fin_iff: "fmul x y = Fin r \<longleftrightarrow> (\<exists>p q. x = Fin p \<and> y = Fin q \<and> r = p * q)"
  by (cases x; cases y) auto

lemma fsqrt_Fin_D: "fsqrt x = Fin r \<Longrightarrow> \<exists>p. x = Fin p"
  by (cases x) auto

lemma fin3_exhaust: "(\<exists>a. v = fin3 a) \<longleftrightarrow> (\<exists>x y z. v = (Fin x, Fin y, Fin z))"
proof
  assume "\<exists>a. v = fin3 a"
  then obtain a where "v = fin3 a" by blast
  then show "\<exists>x y z. v = (Fin x, Fin y, Fin z)" by (cases a) simp
next
  assume "\<exists>x y z. v = (Fin x, Fin y, Fin z)"
  then obtain x y z where "v = (Fin x, Fin y, Fin z)" by blast
  then have "v = fin3 (x, y, z)" by simp
  then show "\<exists>a. v = fin3 a" by blast
qed

lemma fv_norm_Fin_D: "fv_norm v = Fin d \<Longrightarrow> \<exists>a. v = fin3 a"
proof -
  assume h: "fv_norm v = Fin d"
  obtain x y z where v: "v = (x, y, z)" by (cases v)
  from h v obtain p where "fadd (fadd (fmul x x) (fmul y y)) (fmul z z) = Fin p"
    using fsqrt_Fin_D by fastforce
  then obtain x' y' z' where "x = Fin x'" "y = Fin y'" "z = Fin z'"
    by (auto simp: fadd_Fin_iff fmul_Fin_iff)
  with v show ?thesis unfolding fin3_exhaust by blast
qed

lemma fv_sub_fin3_D: "fv_sub u v = fin3 a \<Longrightarrow> \<exists>p q. u = fin3 p \<and> v = fin3 q"
proof -
  assume h: "fv_sub u v = fin3 a"
  obtain u1 u2 u3 v1 v2 v3 a1 a2 a3 where
    uv: "u = (u1, u2, u3)" "v = (v1, v2, v3)" "a = (a1, a2, a3)"
    by (cases u; cases v; cases a) auto
  with h have "fsub u1 v1 = Fin a1" "fsub u2 v2 = Fin a2" "fsub u3 v3 = Fin a3" by auto
  then obtain p1 p2 p3 q1 q2 q3 where
    "u1 = Fin p1" "u2 = Fin p2" "u3 = Fin p3" "v1 = Fin q1" "v2 = Fin q2" "v3 = Fin q3"
    unfolding fsub_Fin_iff by blast
  with uv have "u = fin3 (p1, p2, p3)" "v = fin3 (q1, q2, q3)" by auto
  then show ?thesis by blast
qed

lemma fv_add_fin3_D: "fv_add u v = fin3 a \<Longrightarrow> \<exists>p q. u = fin3 p \<and> v = fin3 q"
proof -
  assume h: "fv_add u v = fin3 a"
  obtain u1 u2 u3 v1 v2 v3 a1 a2 a3 where
    uv: "u = (u1, u2, u3)" "v = (v1, v2, v3)" "a = (a1, a2, a3)"
    by (cases u; cases v; cases a) auto
  with h have "fadd u1 v1 = Fin a1" "fadd u2 v2 = Fin a2" "fadd u3 v3 = Fin a3" by auto
  then obtain p1 p2 p3 q1 q2 q3 where
    "u1 = Fin p1" "u2 = Fin p2" "u3 = Fin p3" "v1 = Fin q1" "v2 = Fin q2" "v3 = Fin q3"
    unfolding fadd_Fin_iff by blast
  with uv have "u = fin3 (p1, p2, p3)" "v = fin3 (q1, q2, q3)" by auto
  then show ?thesis by blast
qed

lemma fdot_Fin_D: "fdot v m = Fin r \<Longrightarrow> \<exists>a. v = fin3 a"
proof -
  assume h: "fdot v m = Fin r"
  obtain x y z m1 m2 m3 where v: "v = (x, y, z)" "m = (m1, m2, m3)" by (cases v; cases m) auto
  with h obtain x' y' z' where "x = Fin x'" "y = Fin y'" "z = Fin z'"
    by (auto simp: fadd_Fin_iff fmul_Fin_iff)
  with v show ?thesis unfolding fin3_exhaust by blast
qed

lemma vec_mat_fin3_D: "vec_mat f M = fin3 x \<Longrightarrow> \<exists>g. f = fin3 g"
proof -
  assume h: "vec_mat f M = fin3 x"
  obtain r1 r2 r3 where M: "M = (r1, r2, r3)" by (cases M)
  obtain m11 m12 m13 where r1: "r1 = (m11, m12, m13)" by (cases r1)
  obtain m21 m22 m23 where r2: "r2 = (m21, m22, m23)" by (cases r2)
  obtain m31 m32 m33 where r3: "r3 = (m31, m32, m33)" by (cases r3)
  obtain x1 x2 x3 where x: "x = (x1, x2, x3)" by (cases x)
  from h have "fdot f (m11, m21, m31) = Fin x1"
    unfolding M r1 r2 r3 x by simp
  then show ?thesis by (rule fdot_Fin_D)
qed






lemma rvm_inverse_left:
  assumes "det M \<noteq> 0"
  shows "rvm (rvm x M) (inv_matrix M) = x"
proof -
  obtain r1 r2 r3 where M: "M = (r1, r2, r3)" by (cases M)
  obtain m11 m12 m13 where r1: "r1 = (m11, m12, m13)" by (cases r1)
  obtain m21 m22 m23 where r2: "r2 = (m21, m22, m23)" by (cases r2)
  obtain m31 m32 m33 where r3: "r3 = (m31, m32, m33)" by (cases r3)
  obtain x1 x2 x3 where x: "x = (x1, x2, x3)" by (cases x)
  define d where "d = m11 * (m22 * m33 - m23 * m32) - m12 * (m21 * m33 - m23 * m31)
       + m13 * (m21 * m32 - m22 * m31)"
  define k where "k = 1 / d"
  have d: "d \<noteq> 0" using assms unfolding M r1 r2 r3 d_def by simp
  then have kd: "k * d = 1" by (simp add: k_def)
  have kk: "k * (d * y) = y" for y
    using kd by (simp add: mult.assoc [symmetric])
  have inv: "inv_matrix M =
      (((m22 * m33 - m23 * m32) * k, (m13 * m32 - m12 * m33) * k, (m12 * m23 - m13 * m22) * k),
       ((m23 * m31 - m21 * m33) * k, (m11 * m33 - m13 * m31) * k, (m13 * m21 - m11 * m23) * k),
       ((m21 * m32 - m22 * m31) * k, (m12 * m31 - m11 * m32) * k, (m11 * m22 - m12 * m21) * k))"
    unfolding M r1 r2 r3 k_def d_def by (simp add: Let_def)
  have q1: "(x1 * m11 + x2 * m21 + x3 * m31) * ((m22 * m33 - m23 * m32) * k)
          + (x1 * m12 + x2 * m22 + x3 * m32) * ((m23 * m31 - m21 * m33) * k)
          + (x1 * m13 + x2 * m23 + x3 * m33) * ((m21 * m32 - m22 * m31) * k) = k * (d * x1)"
    unfolding d_def by (simp add: algebra_simps)
  have q2: "(x1 * m11 + x2 * m21 + x3 * m31) * ((m13 * m32 - m12 * m33) * k)
          + (x1 * m12 + x2 * m22 + x3 * m32) * ((m11 * m33 - m13 * m31) * k)
          + (x1 * m13 + x2 * m23 + x3 * m33) * ((m12 * m31 - m11 * m32) * k) = k * (d * x2)"
    unfolding d_def by (simp add: algebra_simps)
  have q3: "(x1 * m11 + x2 * m21 + x3 * m31) * ((m12 * m23 - m13 * m22) * k)
          + (x1 * m12 + x2 * m22 + x3 * m32) * ((m13 * m21 - m11 * m23) * k)
          + (x1 * m13 + x2 * m23 + x3 * m33) * ((m11 * m22 - m12 * m21) * k) = k * (d * x3)"
    unfolding d_def by (simp add: algebra_simps)
  show ?thesis
    unfolding inv unfolding M r1 r2 r3 x
    by (simp only: rvm.simps q1 q2 q3 kk)
qed




lemma change_site_distance_finite:
  assumes ia: "ia < length (sites c)" and ib: "ib < length (sites c)"
    and dt: "det (lattice c) \<noteq> 0"
    and fa: "frac_coords (sites c ! ia) = fin3 fa"
    and fb: "frac_coords (sites c ! ib) = fin3 fb"
    and dai: "dai (lattice c) (sites c ! ia) (sites c ! ib) = (Fin d0, im)"
    and cv: "cv = rsub (rvm (radd fb (rimage im)) (lattice c)) (rvm fa (lattice c))"
    and nz: "rnorm cv \<noteq> 0"
    and w: "w = rscale ((d0 - t) / 2) (rscale (1 / rnorm cv) cv)"
  shows "change_site_distance dai c (ia, ib) t =
           (None, c\<lparr>sites := (sites c)
              [ia := \<lparr>specie = specie (sites c ! ia),
                      frac_coords = fin3 (rvm (radd (rvm fa (lattice c)) w) (inv_matrix (lattice c))),
                      properties = properties (sites c ! ia)\<rparr>,
               ib := \<lparr>specie = specie (sites c ! ib),
                      frac_coords = fin3 (rvm (rsub (rvm fb (lattice c)) w) (inv_matrix (lattice c))),
                      properties = properties (sites c ! ib)\<rparr>]\<rparr>)"
proof -
  have conn: "fv_sub (get_cartesian_coords (lattice c)
                        (fv_add (frac_coords (sites c ! ib)) (of_image im)))
                     (coords (lattice c) (sites c ! ia)) = fin3 cv"
    by (simp add: fa fb cv coords_def get_cartesian_coords_def of_image_fin3 fv_add_fin3
          vec_mat_fin3 fv_sub_fin3)
  have unit: "divide_by_norm (fin3 cv) = fin3 (rscale (1 / rnorm cv) cv)"
    using nz by (simp add: divide_by_norm_fin3)
  have mv: "fdiv_nz (fsub (Fin d0) (Fin t)) 2 = Fin ((d0 - t) / 2)" by simp
  have na: "fv_add (coords (lattice c) (sites c ! ia))
              (fv_scale (Fin ((d0 - t) / 2)) (fin3 (rscale (1 / rnorm cv) cv)))
            = fin3 (radd (rvm fa (lattice c)) w)"
    by (simp add: fa w coords_def get_cartesian_coords_def vec_mat_fin3 fv_scale_fin3 fv_add_fin3)
  have nb: "fv_sub (coords (lattice c) (sites c ! ib))
              (fv_scale (Fin ((d0 - t) / 2)) (fin3 (rscale (1 / rnorm cv) cv)))
            = fin3 (rsub (rvm fb (lattice c)) w)"
    by (simp add: fb w coords_def get_cartesian_coords_def vec_mat_fin3 fv_scale_fin3 fv_sub_fin3)
  show ?thesis
    unfolding change_site_distance_def
    using ia ib dt
    by (simp add: py_getitem_def dai Let_def conn unit mv na nb replace_def
          get_fractional_coords_def vec_mat_fin3)
qed

lemma connection_finite:
  assumes "fv_norm (connection L A B im) = Fin d0"
  obtains fa fb where "frac_coords A = fin3 fa" and "frac_coords B = fin3 fb"
    and "connection L A B im = fin3 (rsub (rvm (radd fb (rimage im)) L) (rvm fa L))"
    and "rnorm (rsub (rvm (radd fb (rimage im)) L) (rvm fa L)) = d0"
proof -
  from assms obtain cv where cv: "connection L A B im = fin3 cv"
    using fv_norm_Fin_D by blast
  then obtain p q where p: "image_coords L B im = fin3 p" and q: "coords L A = fin3 q"
    unfolding connection_def using fv_sub_fin3_D by blast
  from q obtain fa where fa: "frac_coords A = fin3 fa"
    unfolding coords_def get_cartesian_coords_def using vec_mat_fin3_D by blast
  from p obtain g where "fv_add (frac_coords B) (of_image im) = fin3 g"
    unfolding image_coords_def get_cartesian_coords_def using vec_mat_fin3_D by blast
  then obtain fb where fb: "frac_coords B = fin3 fb"
    using fv_add_fin3_D by blast
  have c: "connection L A B im = fin3 (rsub (rvm (radd fb (rimage im)) L) (rvm fa L))"
    by (simp add: connection_def image_coords_def coords_def get_cartesian_coords_def fa fb
          of_image_fin3 fv_add_fin3 vec_mat_fin3 fv_sub_fin3)
  with assms have "rnorm (rsub (rvm (radd fb (rimage im)) L) (rvm fa L)) = d0"
    by (simp add: fv_norm_fin3)
  with fa fb c show thesis by (rule that)
qed

lemma minimum_image_coincident:
  "minimum_image cubic4 (site_at ''O'' (1/4) 0 0) (site_at ''Li'' (1/4) 0 0) = (Fin 0, (0, 0, 0))"
  by (simp add: minimum_image_def images27_def image_norm2_def get_cartesian_coords_def
        of_image_def site_at_def cubic4_def)

lemma site_eta: "\<lparr>specie = specie (s::site), frac_coords = frac_coords s, properties = properties s\<rparr> = s"
  by simp




text \<open>
  Witness for C3: two oxygens at distance 1 in the cubic cell are set to distance 2,
  with the minimum-image search in the role of the library.
\<close>


text \<open>
  When the target is the current distance of two non-coincident sites, the structure is
  unchanged.
\<close>

lemma same_distance_is_identity:
  assumes ia: "ia < length (sites c)" and ib: "ib < length (sites c)"
    and dt: "det (lattice c) \<noteq> 0"
    and dai: "dai (lattice c) (sites c ! ia) (sites c ! ib) = (Fin d0, im)"
    and len: "fv_norm (connection (lattice c) (sites c ! ia) (sites c ! ib) im) = Fin d0"
    and nz: "d0 \<noteq> 0"
  shows "change_site_distance dai c (ia, ib) d0 = (None, c)"
proof -
  from len obtain fa fb where fa: "frac_coords (sites c ! ia) = fin3 fa"
    and fb: "frac_coords (sites c ! ib) = fin3 fb"
    and nrm: "rnorm (rsub (rvm (radd fb (rimage im)) (lattice c)) (rvm fa (lattice c))) = d0"
    by (rule connection_finite)
  define cv where "cv = rsub (rvm (radd fb (rimage im)) (lattice c)) (rvm fa (lattice c))"
  define w where "w = rscale ((d0 - d0) / 2) (rscale (1 / rnorm cv) cv)"
  have nz': "rnorm cv \<noteq> 0" using nz nrm by (simp add: cv_def)
  have w0: "radd x w = x" "rsub x w = x" for x
    by (cases x; cases cv; simp add: w_def)+
  have res: "change_site_distance dai c (ia, ib) d0 =
           (None, c\<lparr>sites := (sites c)
              [ia := \<lparr>specie = specie (sites c ! ia),
                      frac_coords = fin3 (rvm (radd (rvm fa (lattice c)) w) (inv_matrix (lattice c))),
                      properties = properties (sites c ! ia)\<rparr>,
               ib := \<lparr>specie = specie (sites c ! ib),
                      frac_coords = fin3 (rvm (rsub (rvm fb (lattice c)) w) (inv_matrix (lattice c))),
                      properties = properties (sites c ! ib)\<rparr>]\<rparr>)"
    using change_site_distance_finite
            [where dai = dai and c = c and ia = ia and ib = ib,
             OF ia ib dt fa fb dai cv_def nz' w_def] .
  have a: "\<lparr>specie = specie (sites c ! ia),
            frac_coords = fin3 (rvm (radd (rvm fa (lattice c)) w) (inv_matrix (lattice c))),
            properties = properties (sites c ! ia)\<rparr> = sites c ! ia"
    using dt by (simp add: w0 rvm_inverse_left fa [symmetric])
  have b: "\<lparr>specie = specie (sites c ! ib),
            frac_coords = fin3 (rvm (rsub (rvm fb (lattice c)) w) (inv_matrix (lattice c))),
            properties = properties (sites c ! ib)\<rparr> = sites c ! ib"
    using dt by (simp add: w0 rvm_inverse_left fb [symmetric])
  show ?thesis
    unfolding res a b by simp
qed

text \<open>
  The norm is zero only for the zero vector, so the zero-norm branch of
  \<open>divide_by_norm\<close> divides zeros by zero. For every coincident pair the call returns
  normally with \<open>NaN\<close> coordinates in both sites.
\<close>

lemma zero_norm_zero_vector:
  assumes "fv_norm v = Fin 0"
  shows "v = (Fin 0, Fin 0, Fin 0)"
proof -
  from assms obtain a where a: "v = fin3 a" using fv_norm_Fin_D by blast
  with assms have "rnorm a = 0" by (simp add: fv_norm_fin3)
  then have "a = (0, 0, 0)" by (simp add: rnorm_zero_iff)
  with a show ?thesis by simp
qed

lemma fmul_NaN [simp]: "fmul m NaN = NaN"
  by (cases m) simp_all

lemma fadd_NaN [simp]: "fadd x NaN = NaN"
  by (cases x) simp_all

lemma fsub_NaN [simp]: "fsub x NaN = NaN"
  by (cases x) simp_all

lemma vec_mat_NaN: "vec_mat (NaN, NaN, NaN) M = (NaN, NaN, NaN)"
  by (cases M rule: prod.exhaust) auto

lemma move_by_NaN:
  "fv_scale m (NaN, NaN, NaN) = (NaN, NaN, NaN)"
  "fv_add x (NaN, NaN, NaN) = (NaN, NaN, NaN)"
  "fv_sub x (NaN, NaN, NaN) = (NaN, NaN, NaN)"
  by (simp, (cases x; simp)+)

lemma change_site_distance_coincident:
  assumes ia: "ia < length (sites c)" and ib: "ib < length (sites c)"
    and dt: "det (lattice c) \<noteq> 0"
    and dai: "dai (lattice c) (sites c ! ia) (sites c ! ib) = (d, im)"
    and len: "fv_norm (connection (lattice c) (sites c ! ia) (sites c ! ib) im) = Fin 0"
  shows "change_site_distance dai c (ia, ib) distance =
           (None, c\<lparr>sites := (sites c)
              [ia := \<lparr>specie = specie (sites c ! ia), frac_coords = (NaN, NaN, NaN),
                      properties = properties (sites c ! ia)\<rparr>,
               ib := \<lparr>specie = specie (sites c ! ib), frac_coords = (NaN, NaN, NaN),
                      properties = properties (sites c ! ib)\<rparr>]\<rparr>)"
proof -
  have z: "connection (lattice c) (sites c ! ia) (sites c ! ib) im = (Fin 0, Fin 0, Fin 0)"
    using len by (rule zero_norm_zero_vector)
  then have conn: "fv_sub (get_cartesian_coords (lattice c)
                        (fv_add (frac_coords (sites c ! ib)) (of_image im)))
                     (coords (lattice c) (sites c ! ia)) = (Fin 0, Fin 0, Fin 0)"
    by (simp add: connection_def image_coords_def)
  have unit: "divide_by_norm (Fin 0, Fin 0, Fin 0) = (NaN, NaN, NaN)" by simp
  show ?thesis
    unfolding change_site_distance_def
    using ia ib dt
    by (simp add: py_getitem_def dai Let_def conn unit move_by_NaN replace_def
          get_fractional_coords_def vec_mat_NaN)
qed

text \<open>
  Claim C2 fails on the code. For two coincident sites the separation is zero, the
  connection vector is divided by its zero norm, and no exception is raised: the call
  returns normally and the coordinates of both sites are \<open>NaN\<close>.
\<close>

theorem change_site_distance_coincident_nan:
  "fst (minimum_image (lattice coincident_cathode) (sites coincident_cathode ! 0)
          (sites coincident_cathode ! 1)) = Fin 0
   \<and> change_site_distance minimum_image coincident_cathode (0, 1) 1
       = (None, coincident_cathode\<lparr>sites := [nan_site ''O'', nan_site ''Li'']\<rparr>)"
  by (simp add: coincident_cathode_def minimum_image_coincident [unfolded site_at_def cubic4_def]
        change_site_distance_def
        py_getitem_def coords_def get_cartesian_coords_def of_image_def replace_def
        get_fractional_coords_def nan_site_def site_at_def cubic4_def Let_def)

text \<open>
  Claim C9 fails on the code at coincident sites. Their current distance is zero; with
  the target distance zero the call does not leave the sites as they are: it stores
  \<open>NaN\<close> coordinates, by the division of C2.
\<close>

theorem change_site_distance_zero_target_nan:
  "fst (minimum_image (lattice coincident_cathode) (sites coincident_cathode ! 0)
          (sites coincident_cathode ! 1)) = Fin 0
   \<and> snd (change_site_distance minimum_image coincident_cathode (0, 1) 0)
       \<noteq> coincident_cathode
   \<and> frac_coords (sites (snd (change_site_distance minimum_image coincident_cathode (0, 1) 0)) ! 0)
       = (NaN, NaN, NaN)"
  by (simp add: coincident_cathode_def minimum_image_coincident [unfolded site_at_def cubic4_def]
        change_site_distance_def
        py_getitem_def coords_def get_cartesian_coords_def of_image_def replace_def
        get_fractional_coords_def site_at_def cubic4_def Let_def)

end
